theory Spec2Isabelle
  imports Complex_Main
begin

section \<open>Python values\<close>

text \<open>
  A Python \<open>str\<close> is a sequence of Unicode code points; slicing and \<open>split\<close> count
  code points. It is modelled as the list of its code points, so that the Cyrillic
  default description of \<open>get_weather\<close> is ten characters long, as in Python.
  \<open>py_str\<close> embeds an ASCII literal of the source.
\<close>

type_synonym pystr = "nat list"

definition py_str :: "string \<Rightarrow> pystr" where
  "py_str cs = map of_char cs"

text \<open>
  What \<open>response.json()\<close> returns, and what the fetchers put into their result
  dictionaries: \<open>None\<close>, \<open>bool\<close>, \<open>int\<close>, \<open>float\<close>, \<open>str\<close>, \<open>list\<close>, \<open>dict\<close>.
  A \<open>dict\<close> is an association list read with \<open>map_of\<close>; a \<open>float\<close> is idealised
  as a real number.
\<close>

datatype json =
    JNull
  | JBool bool
  | JInt int
  | JFloat real
  | JString pystr
  | JArray "json list"
  | JObject "(pystr \<times> json) list"

type_synonym pydict = "(pystr \<times> json) list"

datatype py_exception =
    Timeout
  | ConnectionError
  | JSONDecodeError
  | KeyError
  | IndexError
  | TypeError
  | AttributeError
  | OtherException

text \<open>Sequencing of steps that may raise: the first exception ends the \<open>try\<close> body.\<close>

definition and_then :: "py_exception + 'a \<Rightarrow> ('a \<Rightarrow> py_exception + 'b) \<Rightarrow> py_exception + 'b" where
  "and_then m f = (case m of Inl e \<Rightarrow> Inl e | Inr x \<Rightarrow> f x)"

fun is_substring :: "'a list \<Rightarrow> 'a list \<Rightarrow> bool" where
  "is_substring p [] = (p = [])"
| "is_substring p (c # cs) = (take (length p) (c # cs) = p \<or> is_substring p cs)"

text \<open>
  \<open>k in x\<close> for a \<open>str\<close> \<open>k\<close>: key membership in a dict, element membership in a
  list, substring test in a str, \<open>TypeError\<close> for anything that is not iterable.
\<close>

fun py_in :: "pystr \<Rightarrow> json \<Rightarrow> py_exception + bool" where
  "py_in k (JObject d) = Inr (map_of d k \<noteq> None)"
| "py_in k (JArray xs) = Inr (JString k \<in> set xs)"
| "py_in k (JString s) = Inr (is_substring k s)"
| "py_in k _ = Inl TypeError"

text \<open>
  \<open>x[k]\<close> for a \<open>str\<close> \<open>k\<close>: \<open>KeyError\<close> on a dict without the key, \<open>TypeError\<close>
  on a list or str (their indices are integers) and on every other value.
\<close>

fun py_getitem :: "json \<Rightarrow> pystr \<Rightarrow> py_exception + json" where
  "py_getitem (JObject d) k = (case map_of d k of None \<Rightarrow> Inl KeyError | Some v \<Rightarrow> Inr v)"
| "py_getitem _ k = Inl TypeError"

text \<open>
  \<open>x[0]\<close>: the first element of a list or str, \<open>IndexError\<close> when it is empty;
  \<open>KeyError\<close> on a dict (the keys of a parsed JSON object are strings).
\<close>

fun py_getitem0 :: "json \<Rightarrow> py_exception + json" where
  "py_getitem0 (JArray []) = Inl IndexError"
| "py_getitem0 (JArray (x # xs)) = Inr x"
| "py_getitem0 (JString []) = Inl IndexError"
| "py_getitem0 (JString (c # cs)) = Inr (JString [c])"
| "py_getitem0 (JObject d) = Inl KeyError"
| "py_getitem0 _ = Inl TypeError"

text \<open>\<open>x.get(k, dflt)\<close>: only a dict has the method; \<open>x.get(k)\<close> is \<open>x.get(k, None)\<close>.\<close>

fun py_get :: "json \<Rightarrow> pystr \<Rightarrow> json \<Rightarrow> py_exception + json" where
  "py_get (JObject d) k dflt = Inr (case map_of d k of None \<Rightarrow> dflt | Some v \<Rightarrow> v)"
| "py_get _ k dflt = Inl AttributeError"

text \<open>
  \<open>x[:10]\<close>: the first ten items of a str or list. A dict raises (\<open>TypeError\<close> up to
  Python 3.11, \<open>KeyError\<close> from 3.12 on; both reach the same handler).
\<close>

fun py_slice10 :: "json \<Rightarrow> py_exception + json" where
  "py_slice10 (JString s) = Inr (JString (take 10 s))"
| "py_slice10 (JArray xs) = Inr (JArray (take 10 xs))"
| "py_slice10 _ = Inl TypeError"

section \<open>The HTTP call and the log\<close>

text \<open>
  The network is the environment of a fetcher: the outcome of its single
  \<open>requests.get\<close> is an argument of the model. \<open>Raises e\<close> is a call that raises;
  \<open>Response status body\<close> is a response with that status code, \<open>body\<close> being what
  \<open>response.json()\<close> returns, \<open>None\<close> when it raises \<open>JSONDecodeError\<close>.
\<close>

datatype http_outcome =
    Raises py_exception
  | Response int "json option"

text \<open>
  One constructor per log call of \<open>bot.py\<close>, with the values its message interpolates.
  \<open>logger.exception\<close> is kept apart from \<open>logger.error\<close>.
\<close>

datatype log_message =
    CbrStatus int
  | CurrencyMissing pystr
  | CbrTimeout
  | CbrConnection
  | CbrBadJson
  | CbrUnknown py_exception
  | CityMissing pystr
  | OwmStatus int
  | OwmIncomplete
  | OwmTimeout
  | OwmConnection
  | OwmUnknown py_exception

datatype log_record =
    LogWarning log_message
  | LogError log_message
  | LogException log_message

text \<open>What a fetcher does: the records it logs and the value it returns (\<open>None\<close> or a dict).\<close>

type_synonym fetched = "log_record list \<times> pydict option"

section \<open>Currency fetcher (\<open>get_currency_rate\<close>)\<close>

definition currency_not_found :: "pystr \<Rightarrow> py_exception + fetched" where
  "currency_not_found currency_code = Inr ([LogWarning (CurrencyMissing currency_code)], None)"

text \<open>The body of the \<open>try\<close> block; \<open>Inl e\<close> is an exception that leaves it.\<close>

definition currency_try :: "http_outcome \<Rightarrow> pystr \<Rightarrow> py_exception + fetched" where
  "currency_try http currency_code =
     (case http of
        Raises e \<Rightarrow> Inl e
      | Response status_code body \<Rightarrow>
          if status_code \<noteq> 200 then Inr ([LogError (CbrStatus status_code)], None)
          else
            (case body of
               None \<Rightarrow> Inl JSONDecodeError
             | Some data \<Rightarrow>
                 and_then (py_in (py_str ''Valute'') data) (\<lambda>has_table.
                 if has_table then
                   and_then (py_getitem data (py_str ''Valute'')) (\<lambda>table.
                   and_then (py_in currency_code table) (\<lambda>has_code.
                   if has_code then
                     and_then (py_getitem data (py_str ''Valute'')) (\<lambda>table'.
                     and_then (py_getitem table' currency_code) (\<lambda>currency_data.
                     and_then (py_getitem currency_data (py_str ''Name'')) (\<lambda>name.
                     and_then (py_getitem currency_data (py_str ''Value'')) (\<lambda>val.
                     and_then (py_getitem currency_data (py_str ''Previous'')) (\<lambda>previous.
                     and_then (py_getitem data (py_str ''Date'')) (\<lambda>date.
                     and_then (py_slice10 date) (\<lambda>date10.
                     Inr ([], Some [(py_str ''name'', name),
                                    (py_str ''value'', val),
                                    (py_str ''previous'', previous),
                                    (py_str ''date'', date10)]))))))))
                   else currency_not_found currency_code))
                 else currency_not_found currency_code)))"

text \<open>The \<open>except\<close> clauses, in the order of the source.\<close>

definition get_currency_rate :: "http_outcome \<Rightarrow> pystr \<Rightarrow> fetched" where
  "get_currency_rate http currency_code =
     (case currency_try http currency_code of
        Inr r \<Rightarrow> r
      | Inl Timeout \<Rightarrow> ([LogError CbrTimeout], None)
      | Inl ConnectionError \<Rightarrow> ([LogError CbrConnection], None)
      | Inl JSONDecodeError \<Rightarrow> ([LogError CbrBadJson], None)
      | Inl e \<Rightarrow> ([LogException (CbrUnknown e)], None))"

section \<open>Weather fetcher (\<open>get_weather\<close>)\<close>

text \<open>The default description, the Russian word for "unknown", as code points.\<close>

definition unknown_description :: pystr where
  "unknown_description = [1085, 1077, 1080, 1079, 1074, 1077, 1089, 1090, 1085, 1086]"

text \<open>
  The dict display of the source evaluates its values in the order written, so the
  first one that raises decides the exception.
\<close>

definition weather_dict :: "json \<Rightarrow> pystr \<Rightarrow> py_exception + fetched" where
  "weather_dict data city =
     and_then (py_get data (py_str ''name'') (JString city)) (\<lambda>city_v.
     and_then (py_getitem data (py_str ''main'')) (\<lambda>main1.
     and_then (py_get main1 (py_str ''temp'') JNull) (\<lambda>temp.
     and_then (py_getitem data (py_str ''main'')) (\<lambda>main2.
     and_then (py_get main2 (py_str ''feels_like'') JNull) (\<lambda>feels_like.
     and_then (py_getitem data (py_str ''weather'')) (\<lambda>conditions.
     and_then (py_getitem0 conditions) (\<lambda>first.
     and_then (py_get first (py_str ''description'') (JString unknown_description)) (\<lambda>description.
     and_then (py_getitem data (py_str ''main'')) (\<lambda>main3.
     and_then (py_get main3 (py_str ''humidity'') (JInt 0)) (\<lambda>humidity.
     and_then (py_get data (py_str ''wind'') (JObject [])) (\<lambda>wind_block.
     and_then (py_get wind_block (py_str ''speed'') (JInt 0)) (\<lambda>wind.
     and_then (py_getitem data (py_str ''main'')) (\<lambda>main4.
     and_then (py_get main4 (py_str ''pressure'') (JInt 0)) (\<lambda>pressure.
     Inr ([], Some [(py_str ''city'', city_v),
                    (py_str ''temp'', temp),
                    (py_str ''feels_like'', feels_like),
                    (py_str ''description'', description),
                    (py_str ''humidity'', humidity),
                    (py_str ''wind'', wind),
                    (py_str ''pressure'', pressure)])))))))))))))))"

definition weather_try :: "http_outcome \<Rightarrow> pystr \<Rightarrow> py_exception + fetched" where
  "weather_try http city =
     (case http of
        Raises e \<Rightarrow> Inl e
      | Response status_code body \<Rightarrow>
          if status_code = 404 then Inr ([LogWarning (CityMissing city)], None)
          else if status_code \<noteq> 200 then Inr ([LogError (OwmStatus status_code)], None)
          else
            (case body of
               None \<Rightarrow> Inl JSONDecodeError
             | Some data \<Rightarrow>
                 and_then (py_in (py_str ''main'') data) (\<lambda>has_main.
                 if has_main then
                   and_then (py_in (py_str ''weather'') data) (\<lambda>has_weather.
                   if has_weather then weather_dict data city
                   else Inr ([LogError OwmIncomplete], None))
                 else Inr ([LogError OwmIncomplete], None))))"

definition get_weather :: "http_outcome \<Rightarrow> pystr \<Rightarrow> fetched" where
  "get_weather http city =
     (case weather_try http city of
        Inr r \<Rightarrow> r
      | Inl Timeout \<Rightarrow> ([LogError OwmTimeout], None)
      | Inl ConnectionError \<Rightarrow> ([LogError OwmConnection], None)
      | Inl e \<Rightarrow> ([LogException (OwmUnknown e)], None))"

section \<open>Record store (\<open>database.py\<close>)\<close>

text \<open>
  The rows of the two tables, with the columns the program writes and reads. The
  \<open>id\<close> and \<open>request_time\<close> columns are assigned by SQLite and read by no query of the
  program; they are left out. \<open>temperature\<close> and \<open>rate\<close> are nullable \<open>REAL\<close> columns,
  \<open>username\<close> is a nullable \<open>TEXT\<close> column.
\<close>

record weather_row =
  w_user_id :: int
  w_username :: "pystr option"
  w_city :: pystr
  w_temperature :: "real option"
  w_description :: pystr

record currency_row =
  c_user_id :: int
  c_username :: "pystr option"
  c_currency_code :: pystr
  c_rate :: "real option"

text \<open>
  The database file. \<open>connectable\<close> is false when \<open>sqlite3.connect\<close> raises, so that
  \<open>get_connection\<close> returns \<open>None\<close>. A table is \<open>None\<close> until \<open>init_db\<close> has created
  it; a statement on a missing table raises \<open>sqlite3.Error\<close>. Rows are kept in
  insertion order, the order in which SQLite scans them. Logging of \<open>database.py\<close>
  changes neither a result nor the store and is not modelled.
\<close>

record store =
  connectable :: bool
  weather_requests :: "weather_row list option"
  currency_requests :: "currency_row list option"

definition get_connection :: "store \<Rightarrow> store option" where
  "get_connection st = (if connectable st then Some st else None)"

text \<open>\<open>CREATE TABLE IF NOT EXISTS\<close>: an existing table keeps its rows.\<close>

definition create_if_missing :: "'a list option \<Rightarrow> 'a list option" where
  "create_if_missing t = (case t of None \<Rightarrow> Some [] | Some rows \<Rightarrow> Some rows)"

definition init_db :: "store \<Rightarrow> bool \<times> store" where
  "init_db st =
     (case get_connection st of
        None \<Rightarrow> (False, st)
      | Some conn \<Rightarrow>
          (True, conn\<lparr>weather_requests := create_if_missing (weather_requests conn),
                      currency_requests := create_if_missing (currency_requests conn)\<rparr>))"

text \<open>
  \<open>not city\<close> is true of the empty string, \<open>temperature is None\<close> of \<open>None\<close>. The
  result is the returned bool and the store after the call.
\<close>

definition save_weather_request ::
  "store \<Rightarrow> int \<Rightarrow> pystr option \<Rightarrow> pystr \<Rightarrow> real option \<Rightarrow> pystr \<Rightarrow> bool \<times> store" where
  "save_weather_request st user_id username city temperature description =
     (if city = [] \<or> temperature = None then (False, st)
      else
        (case get_connection st of
           None \<Rightarrow> (False, st)
         | Some conn \<Rightarrow>
             (case weather_requests conn of
                None \<Rightarrow> (False, st)
              | Some rows \<Rightarrow>
                  (True, conn\<lparr>weather_requests :=
                     Some (rows @ [\<lparr>w_user_id = user_id, w_username = username, w_city = city,
                                    w_temperature = temperature,
                                    w_description = description\<rparr>])\<rparr>))))"

definition save_currency_request ::
  "store \<Rightarrow> int \<Rightarrow> pystr option \<Rightarrow> pystr \<Rightarrow> real option \<Rightarrow> bool \<times> store" where
  "save_currency_request st user_id username currency_code rate =
     (if currency_code = [] \<or> rate = None then (False, st)
      else
        (case get_connection st of
           None \<Rightarrow> (False, st)
         | Some conn \<Rightarrow>
             (case currency_requests conn of
                None \<Rightarrow> (False, st)
              | Some rows \<Rightarrow>
                  (True, conn\<lparr>currency_requests :=
                     Some (rows @ [\<lparr>c_user_id = user_id, c_username = username,
                                    c_currency_code = currency_code, c_rate = rate\<rparr>])\<rparr>))))"

subsection \<open>The SQL aggregates of \<open>get_user_stats\<close>\<close>

text \<open>
  \<open>AVG\<close> takes the mean of the values that are not \<open>NULL\<close>, and is \<open>NULL\<close> without any.
  The mean is the exact one of the real numbers; SQLite adds and divides floats, so
  its result may differ in the last bits (and overflows to infinity on huge values).
\<close>

definition sql_avg :: "real option list \<Rightarrow> real option" where
  "sql_avg vs =
     (let xs = List.map_filter (\<lambda>v. v) vs
      in if xs = [] then None else Some (sum_list xs / real (length xs)))"

text \<open>\<open>DISTINCT\<close> keeps the first occurrence of each value, in scan order.\<close>

definition sql_distinct :: "'a list \<Rightarrow> 'a list" where
  "sql_distinct xs = rev (remdups (rev xs))"

fun join :: "'a \<Rightarrow> 'a list list \<Rightarrow> 'a list" where
  "join sep [] = []"
| "join sep [x] = x"
| "join sep (x # y # ys) = x @ sep # join sep (y # ys)"

text \<open>\<open>GROUP_CONCAT\<close> joins the values with a comma, and is \<open>NULL\<close> without any.\<close>

definition comma :: nat where
  "comma = 44"

definition sql_group_concat :: "pystr list \<Rightarrow> pystr option" where
  "sql_group_concat xs = (if xs = [] then None else Some (join comma xs))"

text \<open>The two \<open>SELECT\<close>s: an aggregate query without \<open>GROUP BY\<close> returns exactly one row.\<close>

definition select_weather_stats :: "weather_row list \<Rightarrow> int \<Rightarrow> int \<times> real option" where
  "select_weather_stats rows user_id =
     (let mine = filter (\<lambda>r. w_user_id r = user_id) rows
      in (int (length mine), sql_avg (map w_temperature mine)))"

definition select_currency_stats :: "currency_row list \<Rightarrow> int \<Rightarrow> int \<times> pystr option" where
  "select_currency_stats rows user_id =
     (let mine = filter (\<lambda>r. c_user_id r = user_id) rows
      in (int (length mine), sql_group_concat (sql_distinct (map c_currency_code mine))))"

subsection \<open>Python's \<open>round\<close> and \<open>split\<close>\<close>

text \<open>
  \<open>round(x, 1)\<close> rounds to the nearest tenth, a tie to the even one. The model rounds
  the real number that idealises the float; Python rounds the binary float, so the two
  differ where a decimal tie such as 0.35 is not a float. The results below evaluate
  it only at values that floats represent exactly.
\<close>

definition round_half_even :: "real \<Rightarrow> int" where
  "round_half_even y =
     (let f = \<lfloor>y\<rfloor>; d = y - of_int f
      in if d < 1 / 2 then f else if 1 / 2 < d then f + 1 else if even f then f else f + 1)"

definition py_round1 :: "real \<Rightarrow> real" where
  "py_round1 x = of_int (round_half_even (x * 10)) / 10"

text \<open>\<open>s.split(sep)\<close>: the pieces between the separators; one more piece than separators.\<close>

fun py_split :: "'a \<Rightarrow> 'a list \<Rightarrow> 'a list list" where
  "py_split sep [] = [[]]"
| "py_split sep (c # cs) =
     (if c = sep then [] # py_split sep cs
      else (c # hd (py_split sep cs)) # tl (py_split sep cs))"

subsection \<open>\<open>get_user_stats\<close>\<close>

text \<open>
  A conditional expression \<open>a if v else b\<close> tests the truth value of \<open>v\<close>: \<open>None\<close>,
  the float \<open>0.0\<close> and the empty string are false. Each fetched row is a two-column
  \<open>sqlite3.Row\<close>, which is true. The returned dict is \<open>[]\<close> for the source's \<open>{}\<close>.
\<close>

definition avg_temperature_of :: "real option \<Rightarrow> json" where
  "avg_temperature_of avg_temp =
     (case avg_temp of
        None \<Rightarrow> JNull
      | Some a \<Rightarrow> if a \<noteq> 0 then JFloat (py_round1 a) else JNull)"

definition currencies_used_of :: "pystr option \<Rightarrow> json" where
  "currencies_used_of currencies =
     (case currencies of
        None \<Rightarrow> JArray []
      | Some s \<Rightarrow> if s \<noteq> [] then JArray (map JString (py_split comma s)) else JArray [])"

definition get_user_stats :: "store \<Rightarrow> int \<Rightarrow> pydict" where
  "get_user_stats st user_id =
     (case get_connection st of
        None \<Rightarrow> []
      | Some conn \<Rightarrow>
          (case weather_requests conn of
             None \<Rightarrow> []
           | Some wrows \<Rightarrow>
               (case currency_requests conn of
                  None \<Rightarrow> []
                | Some crows \<Rightarrow>
                    (let weather_stats = select_weather_stats wrows user_id;
                         currency_stats = select_currency_stats crows user_id
                     in [(py_str ''weather_requests'', JInt (fst weather_stats)),
                         (py_str ''avg_temperature'', avg_temperature_of (snd weather_stats)),
                         (py_str ''currency_requests'', JInt (fst currency_stats)),
                         (py_str ''currencies_used'', currencies_used_of (snd currency_stats))]))))"

text \<open>The dict the source returns for a reachable store without rows of the user.\<close>

definition zeroed_stats :: pydict where
  "zeroed_stats =
     [(py_str ''weather_requests'', JInt 0),
      (py_str ''avg_temperature'', JNull),
      (py_str ''currency_requests'', JInt 0),
      (py_str ''currencies_used'', JArray [])]"

subsection \<open>The stores the program produces\<close>

text \<open>
  The program writes the database file through \<open>init_db\<close> and the two \<open>save\<close>
  functions only, and never updates or deletes a row. A store is reachable when it is
  a new file (without tables) or results from a reachable one by one of these calls,
  with any arguments, failed calls included; whether the file can be opened may change
  from call to call.
\<close>

inductive reachable :: "store \<Rightarrow> bool" where
  new_file: "reachable \<lparr>connectable = c, weather_requests = None, currency_requests = None\<rparr>"
| connection: "reachable st \<Longrightarrow> reachable (st\<lparr>connectable := c\<rparr>)"
| after_init_db: "reachable st \<Longrightarrow> reachable (snd (init_db st))"
| after_save_weather:
    "reachable st \<Longrightarrow>
     reachable (snd (save_weather_request st user_id username city temperature description))"
| after_save_currency:
    "reachable st \<Longrightarrow>
     reachable (snd (save_currency_request st user_id username currency_code rate))"

section \<open>Sample inputs\<close>

text \<open>Concrete inputs at which the theorems below are instantiated.\<close>

definition sample_rates :: pydict where
  "sample_rates =
     [(py_str ''Date'', JString (py_str ''2024-05-17T11:30:00+03:00'')),
      (py_str ''Valute'', JObject
         [(py_str ''USD'', JObject [(py_str ''Name'', JString (py_str ''US Dollar'')),
                                    (py_str ''Value'', JFloat 90.5),
                                    (py_str ''Previous'', JFloat 91)])])]"

text \<open>A weather response that lacks only \<open>humidity\<close>.\<close>

definition sample_weather :: pydict where
  "sample_weather =
     [(py_str ''name'', JString (py_str ''Kazan'')),
      (py_str ''main'', JObject [(py_str ''temp'', JFloat 21.5),
                                 (py_str ''feels_like'', JFloat 20),
                                 (py_str ''pressure'', JInt 1012)]),
      (py_str ''weather'', JArray [JObject [(py_str ''description'', JString (py_str ''clear sky''))]]),
      (py_str ''wind'', JObject [(py_str ''speed'', JFloat 3.2)])]"

text \<open>The store right after \<open>init_db\<close> on a new file.\<close>

definition empty_store :: store where
  "empty_store = \<lparr>connectable = True, weather_requests = Some [], currency_requests = Some []\<rparr>"

definition sample_store :: store where
  "sample_store =
     \<lparr>connectable = True,
      weather_requests = Some [],
      currency_requests = Some
        [\<lparr>c_user_id = 1, c_username = None, c_currency_code = py_str ''USD'', c_rate = Some 90.5\<rparr>,
         \<lparr>c_user_id = 2, c_username = None, c_currency_code = py_str ''GBP'', c_rate = Some 115\<rparr>,
         \<lparr>c_user_id = 1, c_username = None, c_currency_code = py_str ''EUR'', c_rate = Some 98\<rparr>,
         \<lparr>c_user_id = 1, c_username = None, c_currency_code = py_str ''USD'', c_rate = Some 91\<rparr>]\<rparr>"

section \<open>Basic facts\<close>

lemma py_str_eq_iff [simp]: "py_str a = py_str b \<longleftrightarrow> a = b"
  unfolding py_str_def by (simp add: inj_on_def)

lemma py_str_eq_Nil [simp]: "py_str s = [] \<longleftrightarrow> s = []"
  by (simp add: py_str_def)

lemma and_then_Inr [simp]: "and_then (Inr x) f = f x"
  by (simp add: and_then_def)

lemma and_then_Inl [simp]: "and_then (Inl e) f = Inl e"
  by (simp add: and_then_def)

lemma and_then_eq_Inr: "and_then m f = Inr r \<longleftrightarrow> (\<exists>x. m = Inr x \<and> f x = Inr r)"
  by (cases m) simp_all

lemma py_get_eq_Inr:
  "py_get x k dflt = Inr v \<longleftrightarrow>
     (\<exists>d. x = JObject d \<and> v = (case map_of d k of None \<Rightarrow> dflt | Some u \<Rightarrow> u))"
  by (cases x) auto

lemma py_getitem_eq_Inr:
  "py_getitem x k = Inr v \<longleftrightarrow> (\<exists>d. x = JObject d \<and> map_of d k = Some v)"
  by (cases x) (auto split: option.splits)

section \<open>Currency fetcher: claims\<close>

text \<open>
  Claim C5. When the response has status 200, its table \<open>Valute\<close> has an entry for
  the requested code with the fields \<open>Name\<close>, \<open>Value\<close> and \<open>Previous\<close>, and its
  top-level \<open>Date\<close> is a string, \<open>get_currency_rate\<close> logs nothing and returns a quote
  whose \<open>value\<close> and \<open>previous\<close> are the provider's \<open>Value\<close> and \<open>Previous\<close> and
  whose \<open>date\<close> is the first ten characters of the provider's date string.
\<close>

theorem get_currency_rate_quote:
  assumes "map_of data (py_str ''Valute'') = Some (JObject tbl)"
    and "map_of tbl code = Some (JObject entry)"
    and "map_of entry (py_str ''Name'') = Some n"
    and "map_of entry (py_str ''Value'') = Some v"
    and "map_of entry (py_str ''Previous'') = Some p"
    and "map_of data (py_str ''Date'') = Some (JString d)"
  shows "get_currency_rate (Response 200 (Some (JObject data))) code =
           ([], Some [(py_str ''name'', n), (py_str ''value'', v),
                      (py_str ''previous'', p), (py_str ''date'', JString (take 10 d))])"
  using assms by (simp add: get_currency_rate_def currency_try_def)

theorem get_currency_rate_quote_witness:
  "get_currency_rate (Response 200 (Some (JObject sample_rates))) (py_str ''USD'') =
     ([], Some [(py_str ''name'', JString (py_str ''US Dollar'')),
                (py_str ''value'', JFloat 90.5),
                (py_str ''previous'', JFloat 91),
                (py_str ''date'', JString (py_str ''2024-05-17''))])"
  using get_currency_rate_quote [of sample_rates
      "[(py_str ''USD'', JObject [(py_str ''Name'', JString (py_str ''US Dollar'')),
                                  (py_str ''Value'', JFloat 90.5),
                                  (py_str ''Previous'', JFloat 91)])]"
      "py_str ''USD''"
      "[(py_str ''Name'', JString (py_str ''US Dollar'')),
        (py_str ''Value'', JFloat 90.5),
        (py_str ''Previous'', JFloat 91)]"
      "JString (py_str ''US Dollar'')" "JFloat 90.5" "JFloat 91"
      "py_str ''2024-05-17T11:30:00+03:00''"]
  by (simp add: sample_rates_def py_str_def)

text \<open>
  Claim C7. When the parsed response is an object without the table \<open>Valute\<close>, or
  its table has no entry for the requested code, \<open>get_currency_rate\<close> logs the
  "currency not found" warning and returns \<open>None\<close>: no quote is built, with default
  values or otherwise.
\<close>

theorem get_currency_rate_not_found:
  assumes "map_of data (py_str ''Valute'') = None \<or>
           (\<exists>tbl. map_of data (py_str ''Valute'') = Some (JObject tbl) \<and> map_of tbl code = None)"
  shows "get_currency_rate (Response 200 (Some (JObject data))) code =
           ([LogWarning (CurrencyMissing code)], None)"
  using assms by (auto simp add: get_currency_rate_def currency_try_def currency_not_found_def)

theorem get_currency_rate_not_found_witness:
  "get_currency_rate (Response 200 (Some (JObject sample_rates))) (py_str ''XYZ'') =
     ([LogWarning (CurrencyMissing (py_str ''XYZ''))], None) \<and>
   get_currency_rate
       (Response 200 (Some (JObject [(py_str ''Date'', JString (py_str ''2024-05-17''))])))
       (py_str ''USD'') =
     ([LogWarning (CurrencyMissing (py_str ''USD''))], None)"
  using get_currency_rate_not_found [of sample_rates "py_str ''XYZ''"]
        get_currency_rate_not_found
          [of "[(py_str ''Date'', JString (py_str ''2024-05-17''))]" "py_str ''USD''"]
  by (simp add: sample_rates_def)

section \<open>Weather fetcher: claims\<close>

text \<open>
  What \<open>get_weather\<close> returns for a response with status 200 whose \<open>main\<close> is an
  object, whose \<open>weather\<close> is a list starting with an object, and whose \<open>wind\<close> is
  absent or an object.
\<close>

lemma weather_dict_ok:
  assumes "map_of data (py_str ''main'') = Some (JObject m)"
    and "map_of data (py_str ''weather'') = Some (JArray (JObject c # rest))"
    and "map_of data (py_str ''wind'') = None \<and> wd = [] \<or>
         map_of data (py_str ''wind'') = Some (JObject wd)"
  shows "weather_dict (JObject data) city =
     Inr ([], Some
       [(py_str ''city'',
           case map_of data (py_str ''name'') of None \<Rightarrow> JString city | Some v \<Rightarrow> v),
        (py_str ''temp'', case map_of m (py_str ''temp'') of None \<Rightarrow> JNull | Some v \<Rightarrow> v),
        (py_str ''feels_like'',
           case map_of m (py_str ''feels_like'') of None \<Rightarrow> JNull | Some v \<Rightarrow> v),
        (py_str ''description'',
           case map_of c (py_str ''description'') of
             None \<Rightarrow> JString unknown_description | Some v \<Rightarrow> v),
        (py_str ''humidity'', case map_of m (py_str ''humidity'') of None \<Rightarrow> JInt 0 | Some v \<Rightarrow> v),
        (py_str ''wind'', case map_of wd (py_str ''speed'') of None \<Rightarrow> JInt 0 | Some v \<Rightarrow> v),
        (py_str ''pressure'',
           case map_of m (py_str ''pressure'') of None \<Rightarrow> JInt 0 | Some v \<Rightarrow> v)])"
  using assms by (auto simp add: weather_dict_def)

lemma get_weather_ok:
  assumes "map_of data (py_str ''main'') = Some (JObject m)"
    and "map_of data (py_str ''weather'') = Some (JArray (JObject c # rest))"
    and "map_of data (py_str ''wind'') = None \<and> wd = [] \<or>
         map_of data (py_str ''wind'') = Some (JObject wd)"
  shows "get_weather (Response 200 (Some (JObject data))) city =
     ([], Some
       [(py_str ''city'',
           case map_of data (py_str ''name'') of None \<Rightarrow> JString city | Some v \<Rightarrow> v),
        (py_str ''temp'', case map_of m (py_str ''temp'') of None \<Rightarrow> JNull | Some v \<Rightarrow> v),
        (py_str ''feels_like'',
           case map_of m (py_str ''feels_like'') of None \<Rightarrow> JNull | Some v \<Rightarrow> v),
        (py_str ''description'',
           case map_of c (py_str ''description'') of
             None \<Rightarrow> JString unknown_description | Some v \<Rightarrow> v),
        (py_str ''humidity'', case map_of m (py_str ''humidity'') of None \<Rightarrow> JInt 0 | Some v \<Rightarrow> v),
        (py_str ''wind'', case map_of wd (py_str ''speed'') of None \<Rightarrow> JInt 0 | Some v \<Rightarrow> v),
        (py_str ''pressure'',
           case map_of m (py_str ''pressure'') of None \<Rightarrow> JInt 0 | Some v \<Rightarrow> v)])"
  using assms(1,2) weather_dict_ok [OF assms, of city]
  by (simp add: get_weather_def weather_try_def)

text \<open>A returned snapshot comes from the dict display, after both membership tests.\<close>

lemma weather_try_Some:
  assumes "weather_try http city = Inr (lg, Some w)"
  shows "\<exists>data. http = Response 200 (Some data) \<and> weather_dict data city = Inr (lg, Some w) \<and>
     py_in (py_str ''main'') data = Inr True \<and> py_in (py_str ''weather'') data = Inr True"
  using assms
  by (auto simp add: weather_try_def and_then_eq_Inr
      split: http_outcome.splits if_splits option.splits)

lemma weather_dict_Some:
  assumes "weather_dict data city = Inr (lg, Some w)"
  shows "\<exists>d m. data = JObject d \<and> py_getitem data (py_str ''main'') = Inr (JObject m) \<and>
      map_of w (py_str ''temp'') =
        Some (case map_of m (py_str ''temp'') of None \<Rightarrow> JNull | Some v \<Rightarrow> v) \<and>
      map_of w (py_str ''feels_like'') =
        Some (case map_of m (py_str ''feels_like'') of None \<Rightarrow> JNull | Some v \<Rightarrow> v)"
proof -
  from assms obtain city_v where "py_get data (py_str ''name'') (JString city) = Inr city_v"
    unfolding weather_dict_def and_then_eq_Inr by blast
  then obtain d where d: "data = JObject d"
    by (auto simp add: py_get_eq_Inr)
  from assms obtain main1 temp where main1: "py_getitem data (py_str ''main'') = Inr main1"
    and "py_get main1 (py_str ''temp'') JNull = Inr temp"
    unfolding weather_dict_def and_then_eq_Inr by blast
  then obtain m where "main1 = JObject m"
    by (auto simp add: py_get_eq_Inr)
  with assms main1 show ?thesis
    unfolding d weather_dict_def
    by (auto simp add: and_then_eq_Inr py_getitem_eq_Inr py_get_eq_Inr)
qed

text \<open>
  Whenever \<open>get_weather\<close> returns a snapshot, the response had status 200 and was an
  object holding both the block \<open>main\<close> (an object) and the block \<open>weather\<close>, and
  the snapshot's \<open>temp\<close> and \<open>feels_like\<close> are what \<open>main.get\<close> gives.
\<close>

lemma get_weather_snapshot_blocks:
  assumes "get_weather http city = (lg, Some w)"
  shows "\<exists>data m cond. http = Response 200 (Some (JObject data)) \<and>
      map_of data (py_str ''main'') = Some (JObject m) \<and>
      map_of data (py_str ''weather'') = Some cond \<and>
      map_of w (py_str ''temp'') =
        Some (case map_of m (py_str ''temp'') of None \<Rightarrow> JNull | Some v \<Rightarrow> v) \<and>
      map_of w (py_str ''feels_like'') =
        Some (case map_of m (py_str ''feels_like'') of None \<Rightarrow> JNull | Some v \<Rightarrow> v)"
proof -
  from assms have "weather_try http city = Inr (lg, Some w)"
    by (auto simp add: get_weather_def split: sum.splits py_exception.splits)
  from weather_try_Some [OF this] obtain data where
    http: "http = Response 200 (Some data)" and
    built: "weather_dict data city = Inr (lg, Some w)" and
    has: "py_in (py_str ''weather'') data = Inr True"
    by blast
  from weather_dict_Some [OF built] has http show ?thesis
    by (auto simp add: py_getitem_eq_Inr)
qed

text \<open>
  Claim C2, at the input where the code departs from it. For a response with status
  200 and both blocks, whose \<open>main\<close> holds neither \<open>temp\<close> nor \<open>feels_like\<close>,
  \<open>get_weather\<close> returns a snapshot in which both are \<open>None\<close>, while the optional
  fields get their defaults. The check before the dict display, which its comment
  says covers all needed fields, tests the two blocks only, and \<open>send_weather\<close>
  formats \<open>temp\<close> as a number right after the fetch.
\<close>

theorem get_weather_null_temperature:
  "get_weather
     (Response 200 (Some (JObject [(py_str ''main'', JObject []),
                                   (py_str ''weather'', JArray [JObject []])])))
     (py_str ''Kazan'') =
   ([], Some [(py_str ''city'', JString (py_str ''Kazan'')),
              (py_str ''temp'', JNull),
              (py_str ''feels_like'', JNull),
              (py_str ''description'', JString unknown_description),
              (py_str ''humidity'', JInt 0),
              (py_str ''wind'', JInt 0),
              (py_str ''pressure'', JInt 0)])"
  by (simp add: get_weather_def weather_try_def weather_dict_def)

text \<open>
  Claim C4, as amended. For status 404 \<open>get_weather\<close> logs the "city not found"
  warning, for any other status but 200 it logs an error with the status; in both
  cases it returns \<open>None\<close>, so the two failures differ in the log only, not in the
  returned value.
\<close>

theorem get_weather_status_failures:
  assumes "status \<noteq> 200" and "status \<noteq> 404"
  shows "get_weather (Response 404 body) city = ([LogWarning (CityMissing city)], None) \<and>
         get_weather (Response status body') city = ([LogError (OwmStatus status)], None)"
  using assms by (simp add: get_weather_def weather_try_def)

theorem get_weather_status_failures_witness:
  "get_weather (Response 404 None) (py_str ''Atlantis'') =
     ([LogWarning (CityMissing (py_str ''Atlantis''))], None) \<and>
   get_weather (Response 500 None) (py_str ''Atlantis'') = ([LogError (OwmStatus 500)], None)"
  using get_weather_status_failures [of 500 None "py_str ''Atlantis''" None] by simp

text \<open>
  Claim C4 as stated fails: the value returned for status 404 is the value returned
  for status 500.
\<close>

theorem get_weather_404_same_value:
  "snd (get_weather (Response 404 None) (py_str ''Atlantis'')) =
   snd (get_weather (Response 500 None) (py_str ''Atlantis''))"
  by (simp add: get_weather_def weather_try_def)

text \<open>
  Claim C6. For a response with status 200 whose \<open>main\<close> is an object and whose
  \<open>weather\<close> starts with an object (\<open>wind\<close> being absent or an object), the fetch
  succeeds, and every optional field the provider omits gets its default: \<open>humidity\<close>,
  wind \<open>speed\<close> and \<open>pressure\<close> the integer 0, \<open>description\<close> the word for
  "unknown", and the city name the queried string.
\<close>

theorem get_weather_defaults:
  assumes "map_of data (py_str ''main'') = Some (JObject m)"
    and "map_of data (py_str ''weather'') = Some (JArray (JObject c # rest))"
    and "map_of data (py_str ''wind'') = None \<and> wd = [] \<or>
         map_of data (py_str ''wind'') = Some (JObject wd)"
  shows "\<exists>w. get_weather (Response 200 (Some (JObject data))) city = ([], Some w) \<and>
     (map_of m (py_str ''humidity'') = None \<longrightarrow> map_of w (py_str ''humidity'') = Some (JInt 0)) \<and>
     (map_of wd (py_str ''speed'') = None \<longrightarrow> map_of w (py_str ''wind'') = Some (JInt 0)) \<and>
     (map_of m (py_str ''pressure'') = None \<longrightarrow> map_of w (py_str ''pressure'') = Some (JInt 0)) \<and>
     (map_of c (py_str ''description'') = None \<longrightarrow>
        map_of w (py_str ''description'') = Some (JString unknown_description)) \<and>
     (map_of data (py_str ''name'') = None \<longrightarrow> map_of w (py_str ''city'') = Some (JString city))"
  unfolding get_weather_ok [OF assms] by simp

theorem get_weather_defaults_witness:
  "\<exists>w. get_weather (Response 200 (Some (JObject sample_weather))) (py_str ''kazan'') = ([], Some w) \<and>
       map_of w (py_str ''humidity'') = Some (JInt 0)"
  using get_weather_defaults [of sample_weather
      "[(py_str ''temp'', JFloat 21.5), (py_str ''feels_like'', JFloat 20),
        (py_str ''pressure'', JInt 1012)]"
      "[(py_str ''description'', JString (py_str ''clear sky''))]" "[]"
      "[(py_str ''speed'', JFloat 3.2)]" "py_str ''kazan''"]
  by (simp add: sample_weather_def)

text \<open>
  Claim C10. When the block \<open>weather\<close> is present but is the empty list, the fetch
  fails as a whole even with a complete block \<open>main\<close>: \<open>[0]\<close> raises \<open>IndexError\<close>,
  the catch-all handler logs it and \<open>get_weather\<close> returns \<open>None\<close>. (When \<open>main\<close> is
  not an object, the handler is reached earlier, with \<open>AttributeError\<close>.)
\<close>

theorem get_weather_empty_conditions:
  assumes "map_of data (py_str ''main'') = Some m"
    and "map_of data (py_str ''weather'') = Some (JArray [])"
  shows "get_weather (Response 200 (Some (JObject data))) city =
           ([LogException
               (OwmUnknown (case m of JObject mo \<Rightarrow> IndexError | _ \<Rightarrow> AttributeError))],
            None)"
  using assms by (cases m) (simp_all add: get_weather_def weather_try_def weather_dict_def)

theorem get_weather_empty_conditions_witness:
  "get_weather
     (Response 200 (Some (JObject
        [(py_str ''main'', JObject [(py_str ''temp'', JFloat 21.5),
                                    (py_str ''feels_like'', JFloat 20)]),
         (py_str ''weather'', JArray [])])))
     (py_str ''Kazan'') = ([LogException (OwmUnknown IndexError)], None)"
  using get_weather_empty_conditions
    [of "[(py_str ''main'', JObject [(py_str ''temp'', JFloat 21.5),
                                     (py_str ''feels_like'', JFloat 20)]),
          (py_str ''weather'', JArray [])]"
        "JObject [(py_str ''temp'', JFloat 21.5), (py_str ''feels_like'', JFloat 20)]"
        "py_str ''Kazan''"]
  by simp

section \<open>Record store: facts about \<open>split\<close>, \<open>join\<close> and the aggregates\<close>

lemma py_split_not_Nil [simp]: "py_split sep s \<noteq> []"
  by (induction s) auto

lemma py_split_no_sep: "sep \<notin> set s \<Longrightarrow> py_split sep s = [s]"
  by (induction s) auto

lemma py_split_append_sep: "py_split sep (a @ sep # b) = py_split sep a @ py_split sep b"
  by (induction a) auto

text \<open>No piece of a split holds the separator.\<close>

lemma py_split_pieces: "p \<in> set (py_split sep s) \<Longrightarrow> sep \<notin> set p"
proof (induction s arbitrary: p)
  case Nil
  then show ?case by simp
next
  case (Cons c cs)
  show ?case
  proof (cases "c = sep")
    case True
    with Cons show ?thesis by auto
  next
    case False
    obtain q qs where "py_split sep cs = q # qs"
      by (cases "py_split sep cs") auto
    with Cons False show ?thesis by auto
  qed
qed

lemma py_split_sep_length: "sep \<in> set s \<Longrightarrow> 2 \<le> length (py_split sep s)"
proof (induction s)
  case Nil
  then show ?case by simp
next
  case (Cons c cs)
  obtain q qs where "py_split sep cs = q # qs"
    by (cases "py_split sep cs") auto
  with Cons show ?case by (cases "c = sep") auto
qed

lemma join_eq_Nil: "join sep xs = [] \<longleftrightarrow> xs = [] \<or> xs = [[]]"
  by (induction sep xs rule: join.induct) auto

text \<open>Splitting a join splits every joined string.\<close>

lemma py_split_join:
  "xs \<noteq> [] \<Longrightarrow> py_split sep (join sep xs) = concat (map (py_split sep) xs)"
  by (induction sep xs rule: join.induct) (auto simp add: py_split_append_sep)

lemma concat_split_no_sep:
  "\<forall>x\<in>set xs. sep \<notin> set x \<Longrightarrow> concat (map (py_split sep) xs) = xs"
  by (induction xs) (auto simp add: py_split_no_sep)

lemma set_sql_distinct [simp]: "set (sql_distinct xs) = set xs"
  by (simp add: sql_distinct_def)

lemma distinct_sql_distinct [simp]: "distinct (sql_distinct xs)"
  by (simp add: sql_distinct_def)

lemma currencies_used_of_group_concat:
  assumes "set xs \<noteq> {[]}"
  shows "currencies_used_of (sql_group_concat xs) =
           JArray (map JString (concat (map (py_split comma) xs)))"
proof (cases "xs = []")
  case True
  then show ?thesis by (simp add: currencies_used_of_def sql_group_concat_def)
next
  case False
  moreover from assms have "xs \<noteq> [[]]" by auto
  ultimately have "join comma xs \<noteq> []" by (simp add: join_eq_Nil)
  with False show ?thesis
    by (simp add: currencies_used_of_def sql_group_concat_def py_split_join)
qed

lemma get_user_stats_currencies_used:
  assumes "connectable st" and "weather_requests st = Some ws" and "currency_requests st = Some cs"
  shows "map_of (get_user_stats st uid) (py_str ''currencies_used'') =
     Some (currencies_used_of (sql_group_concat (sql_distinct
        (map c_currency_code (filter (\<lambda>r. c_user_id r = uid) cs)))))"
  using assms
  by (simp add: get_user_stats_def get_connection_def select_currency_stats_def Let_def)

lemma get_user_stats_avg_temperature:
  assumes "connectable st" and "weather_requests st = Some ws" and "currency_requests st = Some cs"
  shows "map_of (get_user_stats st uid) (py_str ''avg_temperature'') =
     Some (avg_temperature_of (sql_avg (map w_temperature (filter (\<lambda>r. w_user_id r = uid) ws))))"
  using assms
  by (simp add: get_user_stats_def get_connection_def select_weather_stats_def Let_def)

lemma map_filter_Some [simp]: "List.map_filter (\<lambda>v. v) (map Some xs) = xs"
  by (induction xs) simp_all

text \<open>
  The reported average of temperatures none of which is \<open>NULL\<close>: their rounded mean,
  but \<open>None\<close> also when the mean is zero.
\<close>

lemma avg_temperature_of_mean:
  "avg_temperature_of (sql_avg (map Some xs)) =
     (if xs = [] \<or> sum_list xs = 0 then JNull
      else JFloat (py_round1 (sum_list xs / real (length xs))))"
  by (auto simp add: avg_temperature_of_def sql_avg_def)

text \<open>When the writers succeed: exactly one row is appended, built from valid fields.\<close>

lemma save_weather_request_True:
  "save_weather_request st uid un city t d = (True, st') \<longleftrightarrow>
     city \<noteq> [] \<and> t \<noteq> None \<and> connectable st \<and>
     (\<exists>rows. weather_requests st = Some rows \<and>
        st' = st\<lparr>weather_requests :=
                Some (rows @ [\<lparr>w_user_id = uid, w_username = un, w_city = city,
                               w_temperature = t, w_description = d\<rparr>])\<rparr>)"
  by (auto simp add: save_weather_request_def get_connection_def split: option.splits)

lemma save_currency_request_True:
  "save_currency_request st uid un code rate = (True, st') \<longleftrightarrow>
     code \<noteq> [] \<and> rate \<noteq> None \<and> connectable st \<and>
     (\<exists>rows. currency_requests st = Some rows \<and>
        st' = st\<lparr>currency_requests :=
                Some (rows @ [\<lparr>c_user_id = uid, c_username = un,
                               c_currency_code = code, c_rate = rate\<rparr>])\<rparr>)"
  by (auto simp add: save_currency_request_def get_connection_def split: option.splits)

text \<open>A successful append raises the user's weather count by exactly one.\<close>

lemma weather_count_after_save:
  assumes "save_weather_request st uid un city t d = (True, st')"
    and "currency_requests st = Some cs"
  shows "\<exists>n. map_of (get_user_stats st uid) (py_str ''weather_requests'') = Some (JInt n) \<and>
             map_of (get_user_stats st' uid) (py_str ''weather_requests'') = Some (JInt (n + 1))"
  using assms unfolding save_weather_request_True
  by (auto simp add: get_user_stats_def get_connection_def select_weather_stats_def Let_def)

text \<open>The example of the specification: temperatures 10.0 and 20.0 average to 15.0.\<close>

lemma two_records_average:
  "(case save_weather_request empty_store 7 None (py_str ''Oslo'') (Some 10) (py_str ''clear'') of
      (ok1, st1) \<Rightarrow>
        (case save_weather_request st1 7 None (py_str ''Oslo'') (Some 20) (py_str ''clear'') of
           (ok2, st2) \<Rightarrow> (ok1, ok2, get_user_stats st2 7))) =
   (True, True, [(py_str ''weather_requests'', JInt 2),
                 (py_str ''avg_temperature'', JFloat 15),
                 (py_str ''currency_requests'', JInt 0),
                 (py_str ''currencies_used'', JArray [])])"
  by (simp add: save_weather_request_def empty_store_def get_user_stats_def get_connection_def
      select_weather_stats_def select_currency_stats_def sql_avg_def sql_group_concat_def
      sql_distinct_def avg_temperature_of_def currencies_used_of_def
      py_round1_def round_half_even_def)

text \<open>\<open>init_db\<close> run again changes nothing: no table is dropped, no row is lost.\<close>

lemma init_db_twice: "init_db st = (ok, st') \<Longrightarrow> init_db st' = (ok, st')"
  by (auto simp add: init_db_def get_connection_def create_if_missing_def
      split: if_splits option.splits)

section \<open>Record store: claims\<close>

text \<open>
  Claim C1, at the input where the code departs from it. On an initialised empty
  store, appending one valid weather record with temperature 0.0 for user 7 succeeds,
  and \<open>get_user_stats\<close> then counts one weather request, yet reports the average
  temperature as \<open>None\<close>, although the user has a record and the mean is 0.0: the
  conditional expression tests the truth value of the average, and \<open>0.0\<close> is false.
\<close>

theorem zero_mean_temperature_is_null:
  "(case save_weather_request empty_store 7 None (py_str ''Oslo'') (Some 0) (py_str ''clear'') of
      (ok, st') \<Rightarrow> (ok, get_user_stats st' 7)) =
   (True, [(py_str ''weather_requests'', JInt 1),
           (py_str ''avg_temperature'', JNull),
           (py_str ''currency_requests'', JInt 0),
           (py_str ''currencies_used'', JArray [])])"
  by (simp add: save_weather_request_def empty_store_def get_user_stats_def get_connection_def
      select_weather_stats_def select_currency_stats_def sql_avg_def sql_group_concat_def
      sql_distinct_def avg_temperature_of_def currencies_used_of_def)

text \<open>
  Claim C3, as amended. \<open>get_user_stats\<close> returns the empty dict when the store
  cannot be reached or a query fails, and the zeroed dict with its four keys when the
  store is reachable and the user has no rows; the two values differ, so a caller can
  tell a store error from the absence of data.
\<close>

theorem get_user_stats_empty_cases:
  "(\<not> connectable st \<or> weather_requests st = None \<or> currency_requests st = None \<longrightarrow>
      get_user_stats st uid = []) \<and>
   (connectable st \<and> weather_requests st = Some ws \<and> currency_requests st = Some cs \<and>
    (\<forall>r\<in>set ws. w_user_id r \<noteq> uid) \<and> (\<forall>r\<in>set cs. c_user_id r \<noteq> uid) \<longrightarrow>
      get_user_stats st uid = zeroed_stats) \<and>
   zeroed_stats \<noteq> []"
  by (auto simp add: get_user_stats_def get_connection_def zeroed_stats_def
      select_weather_stats_def select_currency_stats_def sql_avg_def sql_group_concat_def
      sql_distinct_def avg_temperature_of_def currencies_used_of_def filter_empty_conv
      split: option.splits)

theorem get_user_stats_empty_cases_witness:
  "get_user_stats (empty_store\<lparr>connectable := False\<rparr>) 7 = [] \<and>
   get_user_stats empty_store 7 = zeroed_stats \<and>
   zeroed_stats \<noteq> []"
  using get_user_stats_empty_cases [of "empty_store\<lparr>connectable := False\<rparr>" 7 "[]" "[]"]
        get_user_stats_empty_cases [of empty_store 7 "[]" "[]"]
  by (simp add: empty_store_def)

text \<open>
  Claim C3 as stated fails: for the same empty tables, the result with an
  unreachable store is not the result with a reachable one.
\<close>

theorem get_user_stats_unreachable_differs:
  "get_user_stats \<lparr>connectable = False, weather_requests = Some [],
                   currency_requests = Some []\<rparr> 7 \<noteq>
   get_user_stats \<lparr>connectable = True, weather_requests = Some [],
                   currency_requests = Some []\<rparr> 7"
  by (simp add: get_user_stats_def get_connection_def Let_def)

text \<open>
  Claim C8. A weather record with an empty city or without a temperature is
  rejected: \<open>save_weather_request\<close> returns \<open>False\<close> and the store is the one before
  the call, so no count of any user changes. \<open>save_currency_request\<close> does the same
  for an empty currency code or a missing rate.
\<close>

theorem save_rejects_invalid:
  "(city = [] \<or> temperature = None \<longrightarrow>
      save_weather_request st user_id username city temperature description = (False, st)) \<and>
   (currency_code = [] \<or> rate = None \<longrightarrow>
      save_currency_request st user_id username currency_code rate = (False, st))"
  by (simp add: save_weather_request_def save_currency_request_def)

theorem save_rejects_invalid_witness:
  "save_weather_request empty_store 7 None [] (Some 21.5) (py_str ''clear'') =
     (False, empty_store) \<and>
   save_weather_request empty_store 7 None (py_str ''Kazan'') None (py_str ''clear'') =
     (False, empty_store) \<and>
   save_currency_request empty_store 7 None [] (Some 90.5) = (False, empty_store) \<and>
   save_currency_request empty_store 7 None (py_str ''USD'') None = (False, empty_store)"
  using save_rejects_invalid
          [of "[]" "Some 21.5" empty_store 7 None "py_str ''clear''" "[]" "Some 90.5"]
        save_rejects_invalid
          [of "py_str ''Kazan''" None empty_store 7 None "py_str ''clear''" "py_str ''USD''" None]
  by simp

text \<open>
  What \<open>currencies_used\<close> holds for any contents of the tables, as long as the store
  can be opened and the user's stored codes are not just the empty string: every
  distinct code of the user, split at its commas.
\<close>

lemma currencies_used_split:
  assumes "connectable st" and "weather_requests st = Some ws" and "currency_requests st = Some cs"
    and "c_currency_code ` {r \<in> set cs. c_user_id r = uid} \<noteq> {[]}"
  shows "\<exists>xs. map_of (get_user_stats st uid) (py_str ''currencies_used'') =
             Some (JArray (map JString xs)) \<and>
     ((\<forall>r\<in>set cs. comma \<notin> set (c_currency_code r)) \<longrightarrow>
        distinct xs \<and> set xs = c_currency_code ` {r \<in> set cs. c_user_id r = uid}) \<and>
     (\<forall>r\<in>set cs. c_user_id r = uid \<and> comma \<in> set (c_currency_code r) \<longrightarrow>
        c_currency_code r \<notin> set xs \<and>
        set (py_split comma (c_currency_code r)) \<subseteq> set xs \<and>
        2 \<le> length (py_split comma (c_currency_code r)))"
proof -
  define D where "D = sql_distinct (map c_currency_code (filter (\<lambda>r. c_user_id r = uid) cs))"
  define xs where "xs = concat (map (py_split comma) D)"
  have set_D: "set D = c_currency_code ` {r \<in> set cs. c_user_id r = uid}"
    by (auto simp add: D_def)
  have distinct_D: "distinct D"
    by (simp add: D_def)
  from assms(4) set_D have "set D \<noteq> {[]}"
    by simp
  then have used: "map_of (get_user_stats st uid) (py_str ''currencies_used'') =
      Some (JArray (map JString xs))"
    unfolding get_user_stats_currencies_used [OF assms(1-3)] xs_def D_def
    by (simp add: currencies_used_of_group_concat)
  have no_comma: "distinct xs \<and> set xs = c_currency_code ` {r \<in> set cs. c_user_id r = uid}"
    if "\<forall>r\<in>set cs. comma \<notin> set (c_currency_code r)"
  proof -
    from that set_D have "\<forall>x\<in>set D. comma \<notin> set x"
      by auto
    then have "xs = D"
      unfolding xs_def by (rule concat_split_no_sep)
    with distinct_D set_D show ?thesis
      by simp
  qed
  have with_comma: "c_currency_code r \<notin> set xs \<and>
      set (py_split comma (c_currency_code r)) \<subseteq> set xs \<and>
      2 \<le> length (py_split comma (c_currency_code r))"
    if "r \<in> set cs" and "c_user_id r = uid \<and> comma \<in> set (c_currency_code r)" for r
  proof -
    from that set_D have in_D: "c_currency_code r \<in> set D"
      by auto
    have "\<forall>p\<in>set xs. comma \<notin> set p"
      unfolding xs_def by (auto dest: py_split_pieces)
    with that have absent: "c_currency_code r \<notin> set xs"
      by auto
    from in_D have pieces: "set (py_split comma (c_currency_code r)) \<subseteq> set xs"
      unfolding xs_def by auto
    from that have "2 \<le> length (py_split comma (c_currency_code r))"
      by (simp add: py_split_sep_length)
    with absent pieces show ?thesis
      by simp
  qed
  from used no_comma with_comma show ?thesis
    by blast
qed

text \<open>
  The exception: a row with the empty string as currency code, which only a writer
  other than the program can insert. Its code is lost: \<open>GROUP_CONCAT\<close> gives the
  empty string, which the conditional expression takes for false.
\<close>

lemma currencies_used_empty_code:
  "get_user_stats
     \<lparr>connectable = True, weather_requests = Some [],
      currency_requests = Some [\<lparr>c_user_id = 1, c_username = None, c_currency_code = [],
                                 c_rate = Some 90.5\<rparr>]\<rparr> 1 =
   [(py_str ''weather_requests'', JInt 0),
    (py_str ''avg_temperature'', JNull),
    (py_str ''currency_requests'', JInt 1),
    (py_str ''currencies_used'', JArray [])]"
  by (simp add: get_user_stats_def get_connection_def
      select_weather_stats_def select_currency_stats_def sql_avg_def sql_group_concat_def
      sql_distinct_def avg_temperature_of_def currencies_used_of_def)

text \<open>No reachable store holds an empty currency code: the writer's guard rejects it.\<close>

lemma reachable_codes_nonempty:
  assumes "reachable st" and "currency_requests st = Some cs"
  shows "\<forall>r\<in>set cs. c_currency_code r \<noteq> []"
  using assms
proof (induction arbitrary: cs rule: reachable.induct)
  case (new_file c)
  then show ?case by simp
next
  case (connection st c)
  then show ?case by simp
next
  case (after_init_db st)
  then show ?case
    by (auto simp add: init_db_def get_connection_def create_if_missing_def
        split: if_splits option.splits)
next
  case (after_save_weather st user_id username city temperature description)
  then show ?case
    by (auto simp add: save_weather_request_def get_connection_def
        split: if_splits option.splits)
next
  case (after_save_currency st user_id username currency_code rate)
  then show ?case
    by (auto simp add: save_currency_request_def get_connection_def
        split: if_splits option.splits)
qed

text \<open>The sample store is \<open>init_db\<close> on a new file followed by four currency requests.\<close>

lemma reachable_sample_store: "reachable sample_store"
proof -
  have built: "sample_store =
    snd (save_currency_request
      (snd (save_currency_request
        (snd (save_currency_request
          (snd (save_currency_request
            (snd (init_db \<lparr>connectable = True, weather_requests = None,
                            currency_requests = None\<rparr>))
            1 None (py_str ''USD'') (Some 90.5)))
          2 None (py_str ''GBP'') (Some 115)))
        1 None (py_str ''EUR'') (Some 98)))
      1 None (py_str ''USD'') (Some 91))"
    by (simp add: sample_store_def init_db_def save_currency_request_def get_connection_def
        create_if_missing_def)
  show ?thesis
    unfolding built by (intro reachable.intros)
qed

text \<open>
  Claim C9. In every store the program produces, when it can be opened and holds
  both tables, \<open>currencies_used\<close> is a list of strings such that: if no stored code
  holds a comma, the list has no duplicates and its elements are exactly the user's
  distinct codes; and a code of the user that holds a comma is not an element of the
  list, which holds its two or more comma-separated fragments instead.
\<close>

theorem currencies_used_join_split:
  assumes "reachable st"
    and "connectable st" and "weather_requests st = Some ws" and "currency_requests st = Some cs"
  shows "\<exists>xs. map_of (get_user_stats st uid) (py_str ''currencies_used'') =
             Some (JArray (map JString xs)) \<and>
     ((\<forall>r\<in>set cs. comma \<notin> set (c_currency_code r)) \<longrightarrow>
        distinct xs \<and> set xs = c_currency_code ` {r \<in> set cs. c_user_id r = uid}) \<and>
     (\<forall>r\<in>set cs. c_user_id r = uid \<and> comma \<in> set (c_currency_code r) \<longrightarrow>
        c_currency_code r \<notin> set xs \<and>
        set (py_split comma (c_currency_code r)) \<subseteq> set xs \<and>
        2 \<le> length (py_split comma (c_currency_code r)))"
proof -
  from reachable_codes_nonempty [OF assms(1,4)]
  have "c_currency_code ` {r \<in> set cs. c_user_id r = uid} \<noteq> {[]}"
    by auto
  from currencies_used_split [OF assms(2-4) this] show ?thesis .
qed

theorem currencies_used_join_split_witness:
  "\<exists>xs. map_of (get_user_stats sample_store 1) (py_str ''currencies_used'') =
          Some (JArray (map JString xs)) \<and>
        distinct xs \<and> set xs = {py_str ''USD'', py_str ''EUR''}"
proof -
  have cs: "currency_requests sample_store = Some
     [\<lparr>c_user_id = 1, c_username = None, c_currency_code = py_str ''USD'', c_rate = Some 90.5\<rparr>,
      \<lparr>c_user_id = 2, c_username = None, c_currency_code = py_str ''GBP'', c_rate = Some 115\<rparr>,
      \<lparr>c_user_id = 1, c_username = None, c_currency_code = py_str ''EUR'', c_rate = Some 98\<rparr>,
      \<lparr>c_user_id = 1, c_username = None, c_currency_code = py_str ''USD'', c_rate = Some 91\<rparr>]"
    by (simp add: sample_store_def)
  have ws: "weather_requests sample_store = Some []" and c: "connectable sample_store"
    by (simp_all add: sample_store_def)
  have img: "c_currency_code ` {r \<in> set
     [\<lparr>c_user_id = 1, c_username = None, c_currency_code = py_str ''USD'', c_rate = Some 90.5\<rparr>,
      \<lparr>c_user_id = 2, c_username = None, c_currency_code = py_str ''GBP'', c_rate = Some 115\<rparr>,
      \<lparr>c_user_id = 1, c_username = None, c_currency_code = py_str ''EUR'', c_rate = Some 98\<rparr>,
      \<lparr>c_user_id = 1, c_username = None, c_currency_code = py_str ''USD'', c_rate = Some 91\<rparr>].
     c_user_id r = 1} = {py_str ''USD'', py_str ''EUR''}"
    unfolding set_filter [symmetric] by auto
  from currencies_used_join_split [OF reachable_sample_store c ws cs, of 1] show ?thesis
    unfolding img by (auto simp add: comma_def py_str_def)
qed

end
